theory Spec2Isabelle
  imports Main "HOL-Library.Word"
begin

section \<open>Values carried by the coordinator protocol\<close>

type_synonym u32 = "32 word"
type_synonym u64 = "64 word"

text \<open>
  Modelled from the spec: the Status enumeration (Status.h). The spec names STATUS_OK, a
  distinguished "caller not in cluster" code, and a fixed enumeration of further failure
  codes; the further codes are numbered here by \<open>STATUS_FAILURE\<close>.
\<close>

datatype Status = STATUS_OK | STATUS_CALLER_NOT_IN_CLUSTER | STATUS_FAILURE nat

text \<open>
  Modelled from the spec: the class ServerId (ServerId.h). It wraps one 64-bit value,
  read by \<open>getId\<close>.
\<close>

datatype ServerId = ServerId (getId: u64)

text \<open>
  Modelled from the spec: ServiceMask and WireFormat::ServiceType (ServiceMask.h,
  WireFormat.h). A mask is a set of named services, written with braces in the source as
  here, and \<open>serialize\<close> gives its compact bitmask with one bit for each service.
\<close>

datatype ServiceType =
  MASTER_SERVICE | BACKUP_SERVICE | COORDINATOR_SERVICE | PING_SERVICE | MEMBERSHIP_SERVICE

type_synonym ServiceMask = "ServiceType set"

definition serialize :: "ServiceMask \<Rightarrow> u32" where
  "serialize services =
     (if MASTER_SERVICE \<in> services then 1 else 0)
   + (if BACKUP_SERVICE \<in> services then 2 else 0)
   + (if COORDINATOR_SERVICE \<in> services then 4 else 0)
   + (if PING_SERVICE \<in> services then 8 else 0)
   + (if MEMBERSHIP_SERVICE \<in> services then 16 else 0)"

subsection \<open>Requests and responses\<close>

text \<open>
  The request and response structures of WireFormat.h, one constructor for each operation.
  \<open>allocHeader<Op>\<close> fixes the operation, which is the constructor here. The fields are
  the ones the source assigns, in the order of its assignments:
  EnlistServer (replacesId, serviceMask, readSpeed, serviceLocatorLength);
  GetServerList (serviceMask); HintServerDown (serverId);
  ReassignTabletOwnership (tableId, firstKeyHash, lastKeyHash, newOwnerId, ctimeSegmentId,
  ctimeSegmentOffset); RecoveryMasterFinished (recoveryId, recoveryMasterId, tabletsLength,
  successful); SetMasterRecoveryInfo (serverId, infoLength); VerifyMembership (serverId).
  A response starts with the common status; the operations whose response has no further
  field share \<open>Simple_Response\<close>.
\<close>

datatype RequestHeader =
    EnlistServer_Request u64 u32 u32 (serviceLocatorLength: u32)
  | GetServerList_Request u32
  | GetTabletMap_Request
  | HintServerDown_Request u64
  | ReassignTabletOwnership_Request u64 u64 u64 u64 u64 u32
  | RecoveryMasterFinished_Request u64 u64 (tabletsLength: u32) bool
  | SetMasterRecoveryInfo_Request u64 (infoLength: u32)
  | VerifyMembership_Request u64

record Request =
  header :: RequestHeader
  trailer :: string

datatype ResponseHeader =
    EnlistServer_Response (common_status: Status) (resp_serverId: u64)
  | GetServerList_Response (common_status: Status) (serverListLength: u32)
  | GetTabletMap_Response (common_status: Status) (tabletMapLength: u32)
  | Simple_Response (common_status: Status)

record Response =
  respHeader :: ResponseHeader
  respTrailer :: string

section \<open>The asynchronous operation primitive\<close>

text \<open>
  What a call did: it returned a value, threw a ClientException carrying a status, ended
  the process with \<open>exit\<close>, or stopped in \<open>downCast\<close> before a request existed.
\<close>

datatype 'a Outcome =
    Returned 'a
  | ClientException Status
  | ProcessExit int
  | DownCastFailed

text \<open>
  The calls an operation makes on CoordinatorRpcWrapper and on the ProtoBuf helpers, in the
  order made.
\<close>

datatype Call =
    AllocHeader
  | AppendToRequest nat
  | SerializeToRequest nat
  | Send Request
  | WaitInternal
  | ParseFromResponse u32

text \<open>
  The surroundings of the client: the state of the coordinator, which is reached only
  through \<open>dispatch\<close>; the calls made so far; the log; and the caller's ProtoBuf
  structures, addressed by pointer.
\<close>

record ('c, 'sl, 'tm) World =
  coordinator :: 'c
  calls :: "Call list"
  logged :: "string list"
  serverLists :: "nat \<Rightarrow> 'sl"
  tabletMaps :: "nat \<Rightarrow> 'tm"

record 'c Context =
  dispatch :: "'c \<Rightarrow> Request \<Rightarrow> Response \<times> 'c"

record 'c RpcWrapper =
  rpcContext :: "'c Context"
  request :: Request

text \<open>
  Modelled from the spec: CoordinatorRpcWrapper is declared in CoordinatorRpcWrapper.h.
  \<open>send\<close> hands the finished request to the transport. \<open>waitInternal\<close> suspends the
  caller until the coordinator's reply to this request has arrived.
\<close>

definition record_call :: "Call \<Rightarrow> ('c, 'sl, 'tm) World \<Rightarrow> ('c, 'sl, 'tm) World" where
  "record_call c w = w\<lparr>calls := calls w @ [c]\<rparr>"

definition send :: "'c RpcWrapper \<Rightarrow> ('c, 'sl, 'tm) World \<Rightarrow> ('c, 'sl, 'tm) World" where
  "send rpc w = record_call (Send (request rpc)) w"

definition waitInternal ::
  "'c RpcWrapper \<Rightarrow> ('c, 'sl, 'tm) World \<Rightarrow> Response \<times> ('c, 'sl, 'tm) World" where
  "waitInternal rpc w =
     (let (resp, c') = dispatch (rpcContext rpc) (coordinator w) (request rpc)
      in (resp, record_call WaitInternal (w\<lparr>coordinator := c'\<rparr>)))"

text \<open>
  A line of the log is recorded by its format string; the arguments are rendered by
  helpers such as ServerId::toString.
\<close>

definition RAMCLOUD_LOG :: "string \<Rightarrow> ('c, 'sl, 'tm) World \<Rightarrow> ('c, 'sl, 'tm) World" where
  "RAMCLOUD_LOG msg w = w\<lparr>logged := logged w @ [msg]\<rparr>"

subsection \<open>Helpers of the C library and of Common.h\<close>

abbreviation NUL :: char where
  "NUL \<equiv> CHR 0x00"

definition c_str :: "string \<Rightarrow> string" where
  "c_str s = s @ [NUL]"

text \<open>
  \<open>strncpy dest src n\<close> writes exactly \<open>n\<close> characters: those of \<open>src\<close> up to its first
  null character, then null characters. The second equation is not reached from
  \<open>c_str\<close>, whose result ends in a null character.
\<close>

fun strncpy :: "string \<Rightarrow> nat \<Rightarrow> string" where
  "strncpy src 0 = []"
| "strncpy [] (Suc n) = replicate (Suc n) NUL"
| "strncpy (c # cs) (Suc n) = (if c = NUL then replicate (Suc n) NUL else c # strncpy cs n)"

text \<open>
  \<open>downCast<uint32_t>\<close> of Common.h keeps a value that fits in 32 bits; the call does
  not produce a request otherwise.
\<close>

definition downCast_u32 :: "nat \<Rightarrow> u32 option" where
  "downCast_u32 n = (if n < 2 ^ 32 then Some (of_nat n) else None)"

section \<open>Issuing the operations\<close>

definition EnlistServerRpc ::
  "'c Context \<Rightarrow> ServerId \<Rightarrow> ServiceMask \<Rightarrow> string \<Rightarrow> u32 \<Rightarrow> ('c, 'sl, 'tm) World
   \<Rightarrow> 'c RpcWrapper option \<times> ('c, 'sl, 'tm) World" where
  "EnlistServerRpc context replacesId serviceMask localServiceLocator readSpeed w =
     (let w1 = record_call AllocHeader w
      in case downCast_u32 (length localServiceLocator + 1) of
           None \<Rightarrow> (None, w1)
         | Some n \<Rightarrow>
             let reqHdr = EnlistServer_Request (getId replacesId) (serialize serviceMask)
                            readSpeed n;
                 w2 = record_call (AppendToRequest (unat (serviceLocatorLength reqHdr))) w1;
                 appended = strncpy (c_str localServiceLocator)
                              (unat (serviceLocatorLength reqHdr));
                 rpc = \<lparr>rpcContext = context,
                        request = \<lparr>header = reqHdr, trailer = appended\<rparr>\<rparr>
             in (Some rpc, send rpc w2))"

text \<open>
  Modelled from the spec: the ProtoBuf helpers (ProtoBuf.h) belong to the structured-list
  encoding collaborator and are taken as parameters. \<open>parseServerList\<close> and
  \<open>parseTablets\<close> stand for \<open>parseFromResponse\<close>: from the bytes of the response
  after its header and a length they give the new contents of the caller's structure.
  \<open>serializeTablets\<close> and \<open>serializeMasterRecoveryInfo\<close> give the bytes that
  \<open>serializeToRequest\<close> appends to the request; it returns their number.
\<close>

record ('sl, 'tm, 'ri) ProtoBuf =
  parseServerList :: "string \<Rightarrow> u32 \<Rightarrow> 'sl \<Rightarrow> 'sl"
  parseTablets :: "string \<Rightarrow> u32 \<Rightarrow> 'tm \<Rightarrow> 'tm"
  serializeTablets :: "'tm \<Rightarrow> string"
  serializeMasterRecoveryInfo :: "'ri \<Rightarrow> string"

definition GetServerListRpc ::
  "'c Context \<Rightarrow> ServiceMask \<Rightarrow> ('c, 'sl, 'tm) World
   \<Rightarrow> 'c RpcWrapper \<times> ('c, 'sl, 'tm) World" where
  "GetServerListRpc context services w =
     (let w1 = record_call AllocHeader w;
          reqHdr = GetServerList_Request (serialize services);
          rpc = \<lparr>rpcContext = context, request = \<lparr>header = reqHdr, trailer = []\<rparr>\<rparr>
      in (rpc, send rpc w1))"

definition GetTabletMapRpc ::
  "'c Context \<Rightarrow> ('c, 'sl, 'tm) World \<Rightarrow> 'c RpcWrapper \<times> ('c, 'sl, 'tm) World" where
  "GetTabletMapRpc context w =
     (let w1 = record_call AllocHeader w;
          rpc = \<lparr>rpcContext = context,
                 request = \<lparr>header = GetTabletMap_Request, trailer = []\<rparr>\<rparr>
      in (rpc, send rpc w1))"

definition HintServerDownRpc ::
  "'c Context \<Rightarrow> ServerId \<Rightarrow> ('c, 'sl, 'tm) World
   \<Rightarrow> 'c RpcWrapper \<times> ('c, 'sl, 'tm) World" where
  "HintServerDownRpc context serverId w =
     (let w1 = record_call AllocHeader w;
          reqHdr = HintServerDown_Request (getId serverId);
          rpc = \<lparr>rpcContext = context, request = \<lparr>header = reqHdr, trailer = []\<rparr>\<rparr>
      in (rpc, send rpc w1))"

definition ReassignTabletOwnershipRpc ::
  "'c Context \<Rightarrow> u64 \<Rightarrow> u64 \<Rightarrow> u64 \<Rightarrow> ServerId \<Rightarrow> u64 \<Rightarrow> u32 \<Rightarrow> ('c, 'sl, 'tm) World
   \<Rightarrow> 'c RpcWrapper \<times> ('c, 'sl, 'tm) World" where
  "ReassignTabletOwnershipRpc context tableId firstKeyHash lastKeyHash newOwnerId
       ctimeSegmentId ctimeSegmentOffset w =
     (let w1 = record_call AllocHeader w;
          reqHdr = ReassignTabletOwnership_Request tableId firstKeyHash lastKeyHash
                     (getId newOwnerId) ctimeSegmentId ctimeSegmentOffset;
          rpc = \<lparr>rpcContext = context, request = \<lparr>header = reqHdr, trailer = []\<rparr>\<rparr>
      in (rpc, send rpc w1))"

text \<open>
  \<open>tablets\<close> is the pointer to the caller's structure, read when the request is built.
\<close>

definition RecoveryMasterFinishedRpc ::
  "('sl, 'tm, 'ri) ProtoBuf \<Rightarrow> 'c Context \<Rightarrow> u64 \<Rightarrow> ServerId \<Rightarrow> nat \<Rightarrow> bool
   \<Rightarrow> ('c, 'sl, 'tm) World \<Rightarrow> 'c RpcWrapper \<times> ('c, 'sl, 'tm) World" where
  "RecoveryMasterFinishedRpc pb context recoveryId recoveryMasterId tablets successful w =
     (let w1 = record_call AllocHeader w;
          serialized = serializeTablets pb (tabletMaps w1 tablets);
          w2 = record_call (SerializeToRequest (length serialized)) w1;
          reqHdr = RecoveryMasterFinished_Request recoveryId (getId recoveryMasterId)
                     (of_nat (length serialized)) successful;
          rpc = \<lparr>rpcContext = context,
                 request = \<lparr>header = reqHdr, trailer = serialized\<rparr>\<rparr>
      in (rpc, send rpc w2))"

definition SetMasterRecoveryInfoRpc ::
  "('sl, 'tm, 'ri) ProtoBuf \<Rightarrow> 'c Context \<Rightarrow> ServerId \<Rightarrow> 'ri
   \<Rightarrow> ('c, 'sl, 'tm) World \<Rightarrow> 'c RpcWrapper \<times> ('c, 'sl, 'tm) World" where
  "SetMasterRecoveryInfoRpc pb context serverId recoveryInfo w =
     (let w1 = record_call AllocHeader w;
          serialized = serializeMasterRecoveryInfo pb recoveryInfo;
          w2 = record_call (SerializeToRequest (length serialized)) w1;
          reqHdr = SetMasterRecoveryInfo_Request (getId serverId)
                     (of_nat (length serialized));
          rpc = \<lparr>rpcContext = context,
                 request = \<lparr>header = reqHdr, trailer = serialized\<rparr>\<rparr>
      in (rpc, send rpc w2))"

definition VerifyMembershipRpc ::
  "'c Context \<Rightarrow> ServerId \<Rightarrow> ('c, 'sl, 'tm) World
   \<Rightarrow> 'c RpcWrapper \<times> ('c, 'sl, 'tm) World" where
  "VerifyMembershipRpc context serverId w =
     (let w1 = RAMCLOUD_LOG ''verifying cluster membership for %s'' w;
          w2 = record_call AllocHeader w1;
          reqHdr = VerifyMembership_Request (getId serverId);
          rpc = \<lparr>rpcContext = context, request = \<lparr>header = reqHdr, trailer = []\<rparr>\<rparr>
      in (rpc, send rpc w2))"

section \<open>Completing the operations\<close>

definition throwException :: "Status \<Rightarrow> 'a Outcome" where
  "throwException status = ClientException status"

definition EnlistServerRpc_wait ::
  "'c RpcWrapper \<Rightarrow> ('c, 'sl, 'tm) World \<Rightarrow> ServerId Outcome \<times> ('c, 'sl, 'tm) World" where
  "EnlistServerRpc_wait rpc w =
     (let (resp, w1) = waitInternal rpc w;
          respHdr = respHeader resp
      in if common_status respHdr \<noteq> STATUS_OK
         then (throwException (common_status respHdr), w1)
         else (Returned (ServerId (resp_serverId respHdr)), w1))"

definition parseFromResponse_ServerList ::
  "('sl, 'tm, 'ri) ProtoBuf \<Rightarrow> Response \<Rightarrow> u32 \<Rightarrow> nat \<Rightarrow> ('c, 'sl, 'tm) World
   \<Rightarrow> ('c, 'sl, 'tm) World" where
  "parseFromResponse_ServerList pb resp len serverList w =
     record_call (ParseFromResponse len)
       (w\<lparr>serverLists := (serverLists w)
             (serverList := parseServerList pb (respTrailer resp) len
                              (serverLists w serverList))\<rparr>)"

definition parseFromResponse_Tablets ::
  "('sl, 'tm, 'ri) ProtoBuf \<Rightarrow> Response \<Rightarrow> u32 \<Rightarrow> nat \<Rightarrow> ('c, 'sl, 'tm) World
   \<Rightarrow> ('c, 'sl, 'tm) World" where
  "parseFromResponse_Tablets pb resp len tabletMap w =
     record_call (ParseFromResponse len)
       (w\<lparr>tabletMaps := (tabletMaps w)
             (tabletMap := parseTablets pb (respTrailer resp) len
                             (tabletMaps w tabletMap))\<rparr>)"

definition GetServerListRpc_wait ::
  "('sl, 'tm, 'ri) ProtoBuf \<Rightarrow> 'c RpcWrapper \<Rightarrow> nat \<Rightarrow> ('c, 'sl, 'tm) World
   \<Rightarrow> unit Outcome \<times> ('c, 'sl, 'tm) World" where
  "GetServerListRpc_wait pb rpc serverList w =
     (let (resp, w1) = waitInternal rpc w;
          respHdr = respHeader resp
      in if common_status respHdr \<noteq> STATUS_OK
         then (throwException (common_status respHdr), w1)
         else (Returned (),
               parseFromResponse_ServerList pb resp (serverListLength respHdr)
                 serverList w1))"

definition GetTabletMapRpc_wait ::
  "('sl, 'tm, 'ri) ProtoBuf \<Rightarrow> 'c RpcWrapper \<Rightarrow> nat \<Rightarrow> ('c, 'sl, 'tm) World
   \<Rightarrow> unit Outcome \<times> ('c, 'sl, 'tm) World" where
  "GetTabletMapRpc_wait pb rpc tabletMap w =
     (let (resp, w1) = waitInternal rpc w;
          respHdr = respHeader resp
      in if common_status respHdr \<noteq> STATUS_OK
         then (throwException (common_status respHdr), w1)
         else (Returned (),
               parseFromResponse_Tablets pb resp (tabletMapLength respHdr)
                 tabletMap w1))"

text \<open>
  Modelled from the spec: the \<open>wait\<close> of HintServerDownRpc, ReassignTabletOwnershipRpc,
  RecoveryMasterFinishedRpc and SetMasterRecoveryInfoRpc is declared in
  CoordinatorClient.h. By section 4.1 of the spec, completion waits for the reply and
  turns a status other than success into the typed error carrying that status.
\<close>

definition simpleWait ::
  "'c RpcWrapper \<Rightarrow> ('c, 'sl, 'tm) World \<Rightarrow> unit Outcome \<times> ('c, 'sl, 'tm) World" where
  "simpleWait rpc w =
     (let (resp, w1) = waitInternal rpc w;
          respHdr = respHeader resp
      in if common_status respHdr \<noteq> STATUS_OK
         then (throwException (common_status respHdr), w1)
         else (Returned (), w1))"

definition VerifyMembershipRpc_wait ::
  "'c RpcWrapper \<Rightarrow> bool \<Rightarrow> ('c, 'sl, 'tm) World
   \<Rightarrow> unit Outcome \<times> ('c, 'sl, 'tm) World" where
  "VerifyMembershipRpc_wait rpc suicideOnFailure w =
     (let (resp, w1) = waitInternal rpc w;
          respHdr = respHeader resp
      in if common_status respHdr \<noteq> STATUS_OK
         then (if common_status respHdr = STATUS_CALLER_NOT_IN_CLUSTER \<and> suicideOnFailure
               then (ProcessExit 1,
                     RAMCLOUD_LOG ''server no longer in cluster; committing suicide'' w1)
               else (throwException (common_status respHdr), w1))
         else (Returned (), w1))"

section \<open>The synchronous calls of CoordinatorClient\<close>

definition enlistServer ::
  "'c Context \<Rightarrow> ServerId \<Rightarrow> ServiceMask \<Rightarrow> string \<Rightarrow> u32 \<Rightarrow> ('c, 'sl, 'tm) World
   \<Rightarrow> ServerId Outcome \<times> ('c, 'sl, 'tm) World" where
  "enlistServer context replacesId serviceMask localServiceLocator readSpeed w =
     (case EnlistServerRpc context replacesId serviceMask localServiceLocator readSpeed w of
        (None, w1) \<Rightarrow> (DownCastFailed, w1)
      | (Some rpc, w1) \<Rightarrow> EnlistServerRpc_wait rpc w1)"

definition getBackupList ::
  "('sl, 'tm, 'ri) ProtoBuf \<Rightarrow> 'c Context \<Rightarrow> nat \<Rightarrow> ('c, 'sl, 'tm) World
   \<Rightarrow> unit Outcome \<times> ('c, 'sl, 'tm) World" where
  "getBackupList pb context serverList w =
     (let (rpc, w1) = GetServerListRpc context {BACKUP_SERVICE} w
      in GetServerListRpc_wait pb rpc serverList w1)"

definition getMasterList ::
  "('sl, 'tm, 'ri) ProtoBuf \<Rightarrow> 'c Context \<Rightarrow> nat \<Rightarrow> ('c, 'sl, 'tm) World
   \<Rightarrow> unit Outcome \<times> ('c, 'sl, 'tm) World" where
  "getMasterList pb context serverList w =
     (let (rpc, w1) = GetServerListRpc context {MASTER_SERVICE} w
      in GetServerListRpc_wait pb rpc serverList w1)"

definition getServerList ::
  "('sl, 'tm, 'ri) ProtoBuf \<Rightarrow> 'c Context \<Rightarrow> nat \<Rightarrow> ('c, 'sl, 'tm) World
   \<Rightarrow> unit Outcome \<times> ('c, 'sl, 'tm) World" where
  "getServerList pb context serverList w =
     (let (rpc, w1) = GetServerListRpc context {MASTER_SERVICE, BACKUP_SERVICE} w
      in GetServerListRpc_wait pb rpc serverList w1)"

definition getTabletMap ::
  "('sl, 'tm, 'ri) ProtoBuf \<Rightarrow> 'c Context \<Rightarrow> nat \<Rightarrow> ('c, 'sl, 'tm) World
   \<Rightarrow> unit Outcome \<times> ('c, 'sl, 'tm) World" where
  "getTabletMap pb context tabletMap w =
     (let (rpc, w1) = GetTabletMapRpc context w
      in GetTabletMapRpc_wait pb rpc tabletMap w1)"

definition hintServerDown ::
  "'c Context \<Rightarrow> ServerId \<Rightarrow> ('c, 'sl, 'tm) World
   \<Rightarrow> unit Outcome \<times> ('c, 'sl, 'tm) World" where
  "hintServerDown context serverId w =
     (let (rpc, w1) = HintServerDownRpc context serverId w
      in simpleWait rpc w1)"

definition reassignTabletOwnership ::
  "'c Context \<Rightarrow> u64 \<Rightarrow> u64 \<Rightarrow> u64 \<Rightarrow> ServerId \<Rightarrow> u64 \<Rightarrow> u32 \<Rightarrow> ('c, 'sl, 'tm) World
   \<Rightarrow> unit Outcome \<times> ('c, 'sl, 'tm) World" where
  "reassignTabletOwnership context tableId firstKeyHash lastKeyHash newOwnerId
       ctimeSegmentId ctimeSegmentOffset w =
     (let (rpc, w1) = ReassignTabletOwnershipRpc context tableId firstKeyHash lastKeyHash
                        newOwnerId ctimeSegmentId ctimeSegmentOffset w
      in simpleWait rpc w1)"

definition recoveryMasterFinished ::
  "('sl, 'tm, 'ri) ProtoBuf \<Rightarrow> 'c Context \<Rightarrow> u64 \<Rightarrow> ServerId \<Rightarrow> nat \<Rightarrow> bool
   \<Rightarrow> ('c, 'sl, 'tm) World \<Rightarrow> unit Outcome \<times> ('c, 'sl, 'tm) World" where
  "recoveryMasterFinished pb context recoveryId recoveryMasterId tablets successful w =
     (let (rpc, w1) = RecoveryMasterFinishedRpc pb context recoveryId recoveryMasterId
                        tablets successful w
      in simpleWait rpc w1)"

definition setMasterRecoveryInfo ::
  "('sl, 'tm, 'ri) ProtoBuf \<Rightarrow> 'c Context \<Rightarrow> ServerId \<Rightarrow> 'ri \<Rightarrow> ('c, 'sl, 'tm) World
   \<Rightarrow> unit Outcome \<times> ('c, 'sl, 'tm) World" where
  "setMasterRecoveryInfo pb context serverId recoveryInfo w =
     (let (rpc, w1) = SetMasterRecoveryInfoRpc pb context serverId recoveryInfo w
      in simpleWait rpc w1)"

definition verifyMembership ::
  "'c Context \<Rightarrow> ServerId \<Rightarrow> bool \<Rightarrow> ('c, 'sl, 'tm) World
   \<Rightarrow> unit Outcome \<times> ('c, 'sl, 'tm) World" where
  "verifyMembership context serverId suicideOnFailure w =
     (let (rpc, w1) = VerifyMembershipRpc context serverId w
      in VerifyMembershipRpc_wait rpc suicideOnFailure w1)"

section \<open>Notions used to state the properties\<close>

text \<open>
  The reply that \<open>waitInternal\<close> delivers for an operation, its status, and the world
  once it has been delivered.
\<close>

definition reply :: "'c RpcWrapper \<Rightarrow> ('c, 'sl, 'tm) World \<Rightarrow> Response" where
  "reply rpc w = fst (waitInternal rpc w)"

definition reply_status :: "'c RpcWrapper \<Rightarrow> ('c, 'sl, 'tm) World \<Rightarrow> Status" where
  "reply_status rpc w = common_status (respHeader (reply rpc w))"

definition replied :: "'c RpcWrapper \<Rightarrow> ('c, 'sl, 'tm) World \<Rightarrow> ('c, 'sl, 'tm) World" where
  "replied rpc w = snd (waitInternal rpc w)"

text \<open>The calls made between two worlds, and the requests handed to the transport.\<close>

definition new_calls :: "('c, 'sl, 'tm) World \<Rightarrow> ('c, 'sl, 'tm) World \<Rightarrow> Call list" where
  "new_calls w w' = drop (length (calls w)) (calls w')"

fun sent :: "Call list \<Rightarrow> Request list" where
  "sent [] = []"
| "sent (Send r # cs) = r # sent cs"
| "sent (c # cs) = sent cs"

text \<open>
  Modelled from the spec: which calls on the absent CoordinatorRpcWrapper suspend the
  caller. By sections 4.1 and 5 of the spec, handing a request to the transport does not
  block, and completion blocks until the reply arrives.
\<close>

fun blocks :: "Call \<Rightarrow> bool" where
  "blocks WaitInternal = True"
| "blocks c = False"

text \<open>
  A step from \<open>w\<close> to \<open>w'\<close> only issues when it changes nothing but the list of calls,
  which it extends by calls that do not block.
\<close>

definition only_issues :: "('c, 'sl, 'tm) World \<Rightarrow> ('c, 'sl, 'tm) World \<Rightarrow> bool" where
  "only_issues w w' \<longleftrightarrow>
     w' = w\<lparr>calls := calls w @ new_calls w w'\<rparr> \<and> \<not> list_ex blocks (new_calls w w')"

definition issues ::
  "('c, 'sl, 'tm) World \<Rightarrow> 'c RpcWrapper \<times> ('c, 'sl, 'tm) World \<Rightarrow> bool" where
  "issues w r \<longleftrightarrow> only_issues w (snd r) \<and> sent (new_calls w (snd r)) = [request (fst r)]"

text \<open>
  The synchronous call in the words of the spec: \<open>complete (issue ...)\<close>. Issuing gives
  the handle of the operation, or none when no request could be built; completion is
  applied to the handle. \<open>constructed\<close> is an issue that always gives its handle.
\<close>

definition complete_issue ::
  "('w \<Rightarrow> 'h option \<times> 'w) \<Rightarrow> ('h \<Rightarrow> 'w \<Rightarrow> 'r Outcome \<times> 'w) \<Rightarrow> 'w \<Rightarrow> 'r Outcome \<times> 'w" where
  "complete_issue issue complete w =
     (case fst (issue w) of
        None \<Rightarrow> (DownCastFailed, snd (issue w))
      | Some h \<Rightarrow> complete h (snd (issue w)))"

definition constructed :: "('w \<Rightarrow> 'h \<times> 'w) \<Rightarrow> 'w \<Rightarrow> 'h option \<times> 'w" where
  "constructed issue w = (Some (fst (issue w)), snd (issue w))"

text \<open>Contexts and a world to evaluate the operations on.\<close>

definition ctx_replying :: "ResponseHeader \<Rightarrow> string \<Rightarrow> unit Context" where
  "ctx_replying h t = \<lparr>dispatch = (\<lambda>c r. (\<lparr>respHeader = h, respTrailer = t\<rparr>, c))\<rparr>"

definition ctx0 :: "unit Context" where
  "ctx0 = ctx_replying (Simple_Response STATUS_OK) []"

definition w0 :: "(unit, nat list, nat list) World" where
  "w0 = \<lparr>coordinator = (), calls = [], logged = [],
         serverLists = (\<lambda>p. []), tabletMaps = (\<lambda>p. [])\<rparr>"

definition pb0 :: "(nat list, nat list, nat list) ProtoBuf" where
  "pb0 = \<lparr>parseServerList = (\<lambda>bytes len old. map of_char (take (unat len) bytes)),
          parseTablets = (\<lambda>bytes len old. map of_char (take (unat len) bytes)),
          serializeTablets = map char_of,
          serializeMasterRecoveryInfo = map char_of\<rparr>"

section \<open>The coordinator's side of enlistment\<close>

text \<open>
  Modelled from the spec: the coordinator's assignment of server ids is not in the two
  source files. By section 3 of the spec a ServerId is a 64-bit identifier composed of a
  sequence number and a generation counter: a low, reused sequence slot is combined with
  a strictly increasing generation, and a retired id frees its slot but is not issued
  again. By section 4.2 a valid "replaces" id is removed before the new server is
  admitted. Each half of the identifier is given 32 bits; an enlistment that would need a
  slot or a generation beyond them fails and leaves the coordinator as it was.
\<close>

record Slot =
  nextGeneration :: nat
  occupant :: "nat option"

definition packId :: "nat \<Rightarrow> nat \<Rightarrow> u64" where
  "packId index generation = of_nat (generation * 2 ^ 32 + index)"

fun retireFrom :: "nat \<Rightarrow> u64 \<Rightarrow> Slot list \<Rightarrow> Slot list" where
  "retireFrom i sid [] = []"
| "retireFrom i sid (s # slots) =
     (case occupant s of
        None \<Rightarrow> s
      | Some g \<Rightarrow> if packId i g = sid then s\<lparr>occupant := None\<rparr> else s)
     # retireFrom (Suc i) sid slots"

definition retire :: "u64 \<Rightarrow> Slot list \<Rightarrow> Slot list" where
  "retire sid slots = retireFrom 0 sid slots"

fun firstFree :: "Slot list \<Rightarrow> nat" where
  "firstFree [] = 0"
| "firstFree (s # slots) = (if occupant s = None then 0 else Suc (firstFree slots))"

definition coordinator_enlist :: "u64 \<Rightarrow> Slot list \<Rightarrow> ResponseHeader \<times> Slot list" where
  "coordinator_enlist replaces slots =
     (let retired = retire replaces slots;
          i = firstFree retired;
          grown = (if i < length retired then retired
                   else retired @ [\<lparr>nextGeneration = 0, occupant = None\<rparr>]);
          g = nextGeneration (grown ! i)
      in if i < 2 ^ 32 \<and> g < 2 ^ 32
         then (EnlistServer_Response STATUS_OK (packId i g),
               grown[i := \<lparr>nextGeneration = Suc g, occupant = Some g\<rparr>])
         else (EnlistServer_Response (STATUS_FAILURE 0) 0, slots))"

definition specCoordinator :: "Slot list Context" where
  "specCoordinator =
     \<lparr>dispatch = (\<lambda>slots req.
        case header req of
          EnlistServer_Request replaces services speed n \<Rightarrow>
            (\<lparr>respHeader = fst (coordinator_enlist replaces slots), respTrailer = []\<rparr>,
             snd (coordinator_enlist replaces slots))
        | _ \<Rightarrow> (\<lparr>respHeader = Simple_Response STATUS_OK, respTrailer = []\<rparr>, slots))\<rparr>"

text \<open>
  A cluster lifetime as seen by enlistment: the synchronous call is made once for each
  entry (replacesId, serviceMask, localServiceLocator, readSpeed), in order; \<open>returned\<close>
  collects the ids of the calls that succeeded.
\<close>

fun enlistAll ::
  "'c Context \<Rightarrow> (ServerId \<times> ServiceMask \<times> string \<times> u32) list \<Rightarrow> ('c, 'sl, 'tm) World
   \<Rightarrow> ServerId Outcome list \<times> ('c, 'sl, 'tm) World" where
  "enlistAll context [] w = ([], w)"
| "enlistAll context ((replacesId, serviceMask, localServiceLocator, readSpeed) # rest) w =
     (let (r, w1) = enlistServer context replacesId serviceMask localServiceLocator
                      readSpeed w;
          (rs, w2) = enlistAll context rest w1
      in (r # rs, w2))"

fun returned :: "'a Outcome list \<Rightarrow> 'a list" where
  "returned [] = []"
| "returned (Returned x # rs) = x # returned rs"
| "returned (r # rs) = returned rs"

definition cluster0 :: "(Slot list, nat list, nat list) World" where
  "cluster0 = \<lparr>coordinator = [], calls = [], logged = [],
               serverLists = (\<lambda>p. []), tabletMaps = (\<lambda>p. [])\<rparr>"

text \<open>
  The ids in \<open>ids\<close> lie below the generation counters: each is the pair of a slot of
  the table and of a generation that the slot has already left behind.
\<close>

definition issued_below :: "Slot list \<Rightarrow> u64 set \<Rightarrow> bool" where
  "issued_below slots ids \<longleftrightarrow>
     (\<forall>x\<in>ids. \<exists>i g. x = packId i g \<and> i < length slots
        \<and> g < nextGeneration (slots ! i) \<and> i < 2 ^ 32 \<and> g < 2 ^ 32)"

section \<open>The driver used in tests\<close>

text \<open>
  Driver::Received is declared in Driver.h; the fields are those that MockDriver.cc reads
  and writes. Pointers are addresses, 0 being the null pointer, and the Received objects
  live in a memory from addresses to objects, so that the staged input and the output of
  \<open>tryRecvPacket\<close> may be the same object. A MockDriver has the fields that its
  constructor initialises, apart from the function pointer headerToString, which only
  \<open>sendPacket\<close> reads; \<open>this\<close> is the address of the driver itself.
\<close>

record Received =
  addrlen :: u32
  payload :: nat
  len :: u32
  driver :: nat

record MockDriver =
  inputReceived :: nat
  outputLog :: string
  sendPacketCount :: u32
  tryRecvPacketCount :: u32
  releaseCount :: u32

definition MockDriver_new :: MockDriver where
  "MockDriver_new = \<lparr>inputReceived = 0, outputLog = [], sendPacketCount = 0,
                      tryRecvPacketCount = 0, releaseCount = 0\<rparr>"

definition tryRecvPacket ::
  "nat \<Rightarrow> nat \<Rightarrow> MockDriver \<times> (nat \<Rightarrow> Received)
   \<Rightarrow> bool \<times> MockDriver \<times> (nat \<Rightarrow> Received)" where
  "tryRecvPacket this received state =
     (let d = (fst state)\<lparr>tryRecvPacketCount := tryRecvPacketCount (fst state) + 1\<rparr>;
          mem = snd state
      in if inputReceived d = 0 then (False, d, mem)
         else
           let mem1 = mem(received :=
                        (mem received)\<lparr>addrlen := addrlen (mem (inputReceived d))\<rparr>);
               mem2 = mem1(received :=
                        (mem1 received)\<lparr>payload := payload (mem1 (inputReceived d))\<rparr>);
               mem3 = mem2(received :=
                        (mem2 received)\<lparr>len := len (mem2 (inputReceived d))\<rparr>);
               mem4 = mem3(received := (mem3 received)\<lparr>driver := this\<rparr>)
           in (True, d\<lparr>inputReceived := 0\<rparr>, mem4))"

definition setInput :: "nat \<Rightarrow> MockDriver \<Rightarrow> MockDriver" where
  "setInput received d = d\<lparr>inputReceived := received\<rparr>"

definition mem0 :: "nat \<Rightarrow> Received" where
  "mem0 p = (if p = 1 then \<lparr>addrlen = 16, payload = 4096, len = 5, driver = 0\<rparr>
             else \<lparr>addrlen = 0, payload = 0, len = 0, driver = 0\<rparr>)"

section \<open>Properties\<close>

lemma waitInternal_eq: "waitInternal rpc w = (reply rpc w, replied rpc w)"
  by (simp add: reply_def replied_def)

lemma replied_frame:
  "calls (replied rpc w) = calls w @ [WaitInternal]"
  "logged (replied rpc w) = logged w"
  "serverLists (replied rpc w) = serverLists w"
  "tabletMaps (replied rpc w) = tabletMaps w"
  by (simp_all add: replied_def waitInternal_def record_call_def case_prod_beta)

lemma new_calls_append: "calls w' = calls w @ cs \<Longrightarrow> new_calls w w' = cs"
  by (simp add: new_calls_def)

lemma VerifyMembershipRpc_wait_eq:
  "VerifyMembershipRpc_wait rpc suicideOnFailure w =
     (if reply_status rpc w \<noteq> STATUS_OK
      then (if reply_status rpc w = STATUS_CALLER_NOT_IN_CLUSTER \<and> suicideOnFailure
            then (ProcessExit 1,
                  RAMCLOUD_LOG ''server no longer in cluster; committing suicide''
                    (replied rpc w))
            else (ClientException (reply_status rpc w), replied rpc w))
      else (Returned (), replied rpc w))"
  by (simp add: VerifyMembershipRpc_wait_def waitInternal_eq Let_def throwException_def
      reply_status_def)

lemma EnlistServerRpc_wait_eq:
  "EnlistServerRpc_wait rpc w =
     (if reply_status rpc w \<noteq> STATUS_OK
      then (ClientException (reply_status rpc w), replied rpc w)
      else (Returned (ServerId (resp_serverId (respHeader (reply rpc w)))), replied rpc w))"
  by (simp add: EnlistServerRpc_wait_def waitInternal_eq Let_def throwException_def
      reply_status_def)

lemma GetServerListRpc_wait_eq:
  "GetServerListRpc_wait pb rpc serverList w =
     (if reply_status rpc w \<noteq> STATUS_OK
      then (ClientException (reply_status rpc w), replied rpc w)
      else (Returned (),
            parseFromResponse_ServerList pb (reply rpc w)
              (serverListLength (respHeader (reply rpc w))) serverList (replied rpc w)))"
  by (simp add: GetServerListRpc_wait_def waitInternal_eq Let_def throwException_def
      reply_status_def)

lemma GetTabletMapRpc_wait_eq:
  "GetTabletMapRpc_wait pb rpc tabletMap w =
     (if reply_status rpc w \<noteq> STATUS_OK
      then (ClientException (reply_status rpc w), replied rpc w)
      else (Returned (),
            parseFromResponse_Tablets pb (reply rpc w)
              (tabletMapLength (respHeader (reply rpc w))) tabletMap (replied rpc w)))"
  by (simp add: GetTabletMapRpc_wait_def waitInternal_eq Let_def throwException_def
      reply_status_def)

lemma simpleWait_eq:
  "simpleWait rpc w =
     (if reply_status rpc w \<noteq> STATUS_OK
      then (ClientException (reply_status rpc w), replied rpc w)
      else (Returned (), replied rpc w))"
  by (simp add: simpleWait_def waitInternal_eq Let_def throwException_def reply_status_def)

lemma reply_ctx_replying:
  "reply \<lparr>rpcContext = ctx_replying h t, request = r\<rparr> w = \<lparr>respHeader = h, respTrailer = t\<rparr>"
  by (simp add: reply_def waitInternal_def ctx_replying_def)

lemma reply_status_ctx_replying:
  "reply_status \<lparr>rpcContext = ctx_replying h t, request = r\<rparr> w = common_status h"
  by (simp add: reply_status_def reply_ctx_replying)

lemma strncpy_c_str:
  "strncpy (c_str s) (length s + 1) =
     takeWhile (\<lambda>c. c \<noteq> NUL) s
     @ replicate (length s + 1 - length (takeWhile (\<lambda>c. c \<noteq> NUL) s)) NUL"
  by (induction s) (simp_all add: c_str_def)

lemma strncpy_c_str_no_NUL:
  "NUL \<notin> set s \<Longrightarrow> strncpy (c_str s) (length s + 1) = s @ [NUL]"
  by (induction s) (auto simp: c_str_def)

lemma unat_downCast_u32:
  "n < 2 ^ 32 \<Longrightarrow> unat (of_nat n :: u32) = n"
  by (simp add: unat_of_nat)

lemma EnlistServerRpc_fits:
  assumes "length loc + 1 < 2 ^ 32"
  shows "EnlistServerRpc context replacesId serviceMask loc readSpeed w =
           (let rpc = \<lparr>rpcContext = context,
                       request = \<lparr>header = EnlistServer_Request (getId replacesId)
                                             (serialize serviceMask) readSpeed
                                             (of_nat (length loc + 1)),
                                  trailer = strncpy (c_str loc) (length loc + 1)\<rparr>\<rparr>
            in (Some rpc,
                send rpc (record_call (AppendToRequest (length loc + 1))
                           (record_call AllocHeader w))))"
proof -
  have fits: "downCast_u32 (length loc + 1) = Some (of_nat (length loc + 1))"
    using assms by (simp add: downCast_u32_def)
  have len: "unat (of_nat (length loc + 1) :: u32) = length loc + 1"
    using assms by (rule unat_downCast_u32)
  show ?thesis
    unfolding EnlistServerRpc_def Let_def fits option.case RequestHeader.sel len ..
qed

lemma calls_frame [simp]:
  "calls (record_call c w) = calls w @ [c]"
  "calls (send rpc w) = calls w @ [Send (request rpc)]"
  "calls (RAMCLOUD_LOG m w) = calls w"
  by (simp_all add: record_call_def send_def RAMCLOUD_LOG_def)

lemma new_calls_replied:
  "calls w1 = calls w @ cs \<Longrightarrow> new_calls w (replied rpc w1) = cs @ [WaitInternal]"
  by (simp add: new_calls_def replied_frame)

lemma new_calls_parse:
  "calls w1 = calls w @ cs \<Longrightarrow>
   new_calls w (parseFromResponse_ServerList pb resp n p (replied rpc w1))
     = cs @ [WaitInternal, ParseFromResponse n]"
  "calls w1 = calls w @ cs \<Longrightarrow>
   new_calls w (parseFromResponse_Tablets pb resp n p (replied rpc w1))
     = cs @ [WaitInternal, ParseFromResponse n]"
  by (simp_all add: new_calls_def replied_frame parseFromResponse_ServerList_def
      parseFromResponse_Tablets_def record_call_def)

lemma GetServerListRpc_eq:
  "GetServerListRpc context services w =
     (\<lparr>rpcContext = context,
       request = \<lparr>header = GetServerList_Request (serialize services), trailer = []\<rparr>\<rparr>,
      w\<lparr>calls := calls w @
            [AllocHeader,
             Send \<lparr>header = GetServerList_Request (serialize services), trailer = []\<rparr>]\<rparr>)"
  by (simp add: GetServerListRpc_def Let_def send_def record_call_def)

lemma GetTabletMapRpc_eq:
  "GetTabletMapRpc context w =
     (\<lparr>rpcContext = context, request = \<lparr>header = GetTabletMap_Request, trailer = []\<rparr>\<rparr>,
      w\<lparr>calls := calls w @
            [AllocHeader, Send \<lparr>header = GetTabletMap_Request, trailer = []\<rparr>]\<rparr>)"
  by (simp add: GetTabletMapRpc_def Let_def send_def record_call_def)

lemma sent_GetServerListRpc_wait:
  assumes "calls w1 = calls w @ cs"
  shows "sent (new_calls w (snd (GetServerListRpc_wait pb rpc p w1))) = sent cs"
proof -
  have s: "sent (cs @ ds) = sent cs @ sent ds" for cs ds
    by (induction cs rule: sent.induct) simp_all
  show ?thesis
    using assms
    by (simp add: GetServerListRpc_wait_eq new_calls_replied new_calls_parse s)
qed

lemma sent_GetTabletMapRpc_wait:
  assumes "calls w1 = calls w @ cs"
  shows "sent (new_calls w (snd (GetTabletMapRpc_wait pb rpc p w1))) = sent cs"
proof -
  have s: "sent (cs @ ds) = sent cs @ sent ds" for cs ds
    by (induction cs rule: sent.induct) simp_all
  show ?thesis
    using assms
    by (simp add: GetTabletMapRpc_wait_eq new_calls_replied new_calls_parse s)
qed

lemma only_issuesI:
  "\<not> list_ex blocks cs \<Longrightarrow> only_issues w (w\<lparr>calls := calls w @ cs\<rparr>)"
  by (simp add: only_issues_def new_calls_def)

lemma issuesI:
  "\<not> list_ex blocks cs \<Longrightarrow> sent cs = [request rpc] \<Longrightarrow>
   issues w (rpc, w\<lparr>calls := calls w @ cs\<rparr>)"
  by (simp add: issues_def only_issuesI) (simp add: new_calls_def)

lemma HintServerDownRpc_eq:
  "HintServerDownRpc context serverId w =
     (\<lparr>rpcContext = context,
       request = \<lparr>header = HintServerDown_Request (getId serverId), trailer = []\<rparr>\<rparr>,
      w\<lparr>calls := calls w @
            [AllocHeader,
             Send \<lparr>header = HintServerDown_Request (getId serverId), trailer = []\<rparr>]\<rparr>)"
  by (simp add: HintServerDownRpc_def Let_def send_def record_call_def)

lemma ReassignTabletOwnershipRpc_eq:
  "ReassignTabletOwnershipRpc context tableId firstKeyHash lastKeyHash newOwnerId
     ctimeSegmentId ctimeSegmentOffset w =
     (\<lparr>rpcContext = context,
       request = \<lparr>header = ReassignTabletOwnership_Request tableId firstKeyHash
                             lastKeyHash (getId newOwnerId) ctimeSegmentId
                             ctimeSegmentOffset,
                  trailer = []\<rparr>\<rparr>,
      w\<lparr>calls := calls w @
            [AllocHeader,
             Send \<lparr>header = ReassignTabletOwnership_Request tableId firstKeyHash
                              lastKeyHash (getId newOwnerId) ctimeSegmentId
                              ctimeSegmentOffset,
                   trailer = []\<rparr>]\<rparr>)"
  by (simp add: ReassignTabletOwnershipRpc_def Let_def send_def record_call_def)

lemma RecoveryMasterFinishedRpc_eq:
  "RecoveryMasterFinishedRpc pb context recoveryId recoveryMasterId tablets successful w =
     (\<lparr>rpcContext = context,
       request = \<lparr>header = RecoveryMasterFinished_Request recoveryId
                             (getId recoveryMasterId)
                             (of_nat (length (serializeTablets pb (tabletMaps w tablets))))
                             successful,
                  trailer = serializeTablets pb (tabletMaps w tablets)\<rparr>\<rparr>,
      w\<lparr>calls := calls w @
            [AllocHeader,
             SerializeToRequest (length (serializeTablets pb (tabletMaps w tablets))),
             Send \<lparr>header = RecoveryMasterFinished_Request recoveryId
                              (getId recoveryMasterId)
                              (of_nat (length (serializeTablets pb (tabletMaps w tablets))))
                              successful,
                   trailer = serializeTablets pb (tabletMaps w tablets)\<rparr>]\<rparr>)"
  by (simp add: RecoveryMasterFinishedRpc_def Let_def send_def record_call_def)

lemma SetMasterRecoveryInfoRpc_eq:
  "SetMasterRecoveryInfoRpc pb context serverId recoveryInfo w =
     (\<lparr>rpcContext = context,
       request = \<lparr>header = SetMasterRecoveryInfo_Request (getId serverId)
                             (of_nat (length (serializeMasterRecoveryInfo pb recoveryInfo))),
                  trailer = serializeMasterRecoveryInfo pb recoveryInfo\<rparr>\<rparr>,
      w\<lparr>calls := calls w @
            [AllocHeader,
             SerializeToRequest (length (serializeMasterRecoveryInfo pb recoveryInfo)),
             Send \<lparr>header = SetMasterRecoveryInfo_Request (getId serverId)
                              (of_nat (length (serializeMasterRecoveryInfo pb recoveryInfo))),
                   trailer = serializeMasterRecoveryInfo pb recoveryInfo\<rparr>]\<rparr>)"
  by (simp add: SetMasterRecoveryInfoRpc_def Let_def send_def record_call_def)

lemma VerifyMembershipRpc_eq:
  "VerifyMembershipRpc context serverId w =
     (\<lparr>rpcContext = context,
       request = \<lparr>header = VerifyMembership_Request (getId serverId), trailer = []\<rparr>\<rparr>,
      (RAMCLOUD_LOG ''verifying cluster membership for %s'' w)
        \<lparr>calls := calls (RAMCLOUD_LOG ''verifying cluster membership for %s'' w) @
            [AllocHeader,
             Send \<lparr>header = VerifyMembership_Request (getId serverId), trailer = []\<rparr>]\<rparr>)"
  by (simp add: VerifyMembershipRpc_def Let_def send_def record_call_def RAMCLOUD_LOG_def)

lemma EnlistServerRpc_only_issues:
  "only_issues w (snd (EnlistServerRpc context replacesId serviceMask loc readSpeed w))"
proof (cases "downCast_u32 (length loc + 1)")
  case None
  then have "snd (EnlistServerRpc context replacesId serviceMask loc readSpeed w)
               = w\<lparr>calls := calls w @ [AllocHeader]\<rparr>"
    by (simp add: EnlistServerRpc_def Let_def record_call_def)
  then show ?thesis by (simp add: only_issuesI)
next
  case (Some n)
  then have eq: "snd (EnlistServerRpc context replacesId serviceMask loc readSpeed w)
       = w\<lparr>calls := calls w @
            [AllocHeader, AppendToRequest (unat n),
             Send \<lparr>header = EnlistServer_Request (getId replacesId)
                              (serialize serviceMask) readSpeed n,
                   trailer = strncpy (c_str loc) (unat n)\<rparr>]\<rparr>"
    by (simp add: EnlistServerRpc_def Let_def record_call_def send_def)
  show ?thesis unfolding eq by (rule only_issuesI) simp
qed

lemma EnlistServerRpc_sent:
  "fst (EnlistServerRpc context replacesId serviceMask loc readSpeed w) = Some rpc \<Longrightarrow>
   sent (new_calls w (snd (EnlistServerRpc context replacesId serviceMask loc readSpeed w)))
     = [request rpc]"
  by (auto simp: EnlistServerRpc_def Let_def record_call_def send_def new_calls_def
      split: option.splits)

lemma VerifyMembershipRpc_issues:
  "issues (RAMCLOUD_LOG ''verifying cluster membership for %s'' w)
     (VerifyMembershipRpc context serverId w)"
  unfolding VerifyMembershipRpc_eq by (rule issuesI) simp_all

lemma wait_blocks:
  "take 1 (new_calls w (snd (EnlistServerRpc_wait rpc w))) = [WaitInternal]"
  "take 1 (new_calls w (snd (GetServerListRpc_wait pb rpc serverList w)))
     = [WaitInternal]"
  "take 1 (new_calls w (snd (GetTabletMapRpc_wait pb rpc tabletMap w)))
     = [WaitInternal]"
  "take 1 (new_calls w (snd (simpleWait rpc w))) = [WaitInternal]"
  "take 1 (new_calls w (snd (VerifyMembershipRpc_wait rpc suicideOnFailure w)))
     = [WaitInternal]"
  by (simp_all add: EnlistServerRpc_wait_eq GetServerListRpc_wait_eq GetTabletMapRpc_wait_eq
      simpleWait_eq VerifyMembershipRpc_wait_eq new_calls_def replied_frame
      parseFromResponse_ServerList_def parseFromResponse_Tablets_def record_call_def
      RAMCLOUD_LOG_def)

lemma unat_of_nat_u64: "n < 2 ^ 64 \<Longrightarrow> unat (of_nat n :: u64) = n"
  by (simp add: unat_of_nat)

lemma packId_inj:
  assumes "packId i g = packId i' g'" "i < 2 ^ 32" "g < 2 ^ 32" "i' < 2 ^ 32" "g' < 2 ^ 32"
  shows "i = i' \<and> g = g'"
proof -
  have b: "g * 2 ^ 32 + i < 2 ^ 64" if "i < 2 ^ 32" "g < 2 ^ 32" for i g :: nat
  proof -
    from that have "g * 2 ^ 32 + i < (g + 1) * 2 ^ 32" by simp
    also from that have "\<dots> \<le> 2 ^ 32 * 2 ^ 32" by simp
    finally show ?thesis by simp
  qed
  have u: "unat (packId i g) = g * 2 ^ 32 + i" if "i < 2 ^ 32" "g < 2 ^ 32" for i g
    unfolding packId_def using b [OF that] by (rule unat_of_nat_u64)
  from assms have e: "g * 2 ^ 32 + i = g' * 2 ^ 32 + i'"
    by (metis u)
  from e assms(2,4) have "(g * 2 ^ 32 + i) mod 2 ^ 32 = (g' * 2 ^ 32 + i') mod 2 ^ 32"
    by simp
  with assms(2,4) have i: "i = i'" by simp
  with e have "g * (2::nat) ^ 32 = g' * 2 ^ 32" by simp
  then have "g = g'" by simp
  with i show ?thesis by simp
qed

lemma length_retireFrom [simp]: "length (retireFrom i sid slots) = length slots"
  by (induction slots arbitrary: i) simp_all

lemma nextGeneration_retireFrom:
  "j < length slots \<Longrightarrow>
   nextGeneration (retireFrom i sid slots ! j) = nextGeneration (slots ! j)"
proof (induction slots arbitrary: i j)
  case Nil
  then show ?case by simp
next
  case (Cons s slots)
  then show ?case
    by (cases j) (simp_all split: option.splits)
qed

lemma firstFree_le: "firstFree slots \<le> length slots"
  by (induction slots) simp_all

lemma coordinator_enlist_fresh:
  assumes inv: "issued_below slots ids"
  shows "(common_status (fst (coordinator_enlist replaces slots)) = STATUS_OK \<longrightarrow>
            resp_serverId (fst (coordinator_enlist replaces slots)) \<notin> ids
          \<and> issued_below (snd (coordinator_enlist replaces slots))
               (insert (resp_serverId (fst (coordinator_enlist replaces slots))) ids))
       \<and> (common_status (fst (coordinator_enlist replaces slots)) \<noteq> STATUS_OK \<longrightarrow>
            snd (coordinator_enlist replaces slots) = slots)"
proof -
  define retired where "retired = retire replaces slots"
  define i where "i = firstFree retired"
  define grown where "grown = (if i < length retired then retired
                   else retired @ [\<lparr>nextGeneration = 0, occupant = None\<rparr>])"
  define g where "g = nextGeneration (grown ! i)"
  have run: "coordinator_enlist replaces slots =
     (if i < 2 ^ 32 \<and> g < 2 ^ 32
         then (EnlistServer_Response STATUS_OK (packId i g),
               grown[i := \<lparr>nextGeneration = Suc g, occupant = Some g\<rparr>])
         else (EnlistServer_Response (STATUS_FAILURE 0) 0, slots))"
    by (simp add: coordinator_enlist_def Let_def retired_def i_def grown_def g_def)
  have len_ret: "length retired = length slots"
    by (simp add: retired_def retire_def)
  have gen_ret: "nextGeneration (retired ! j) = nextGeneration (slots ! j)"
    if "j < length slots" for j
    using that by (simp add: retired_def retire_def nextGeneration_retireFrom)
  have i_le: "i \<le> length slots"
    using firstFree_le [of retired] by (simp add: i_def len_ret)
  have len_grown: "length slots \<le> length grown" "i < length grown"
    using i_le by (auto simp: grown_def len_ret)
  have gen_grown: "nextGeneration (grown ! j) = nextGeneration (slots ! j)"
    if "j < length slots" for j
    using that gen_ret [OF that] by (simp add: grown_def len_ret nth_append)
  show ?thesis
  proof (cases "i < 2 ^ 32 \<and> g < 2 ^ 32")
    case False
    then have "coordinator_enlist replaces slots =
                 (EnlistServer_Response (STATUS_FAILURE 0) 0, slots)"
      unfolding run by (rule if_not_P)
    then show ?thesis by simp
  next
    case True
    let ?slots' = "grown[i := \<lparr>nextGeneration = Suc g, occupant = Some g\<rparr>]"
    have fresh: "packId i g \<notin> ids"
    proof
      assume "packId i g \<in> ids"
      with inv obtain i' g' where x: "packId i g = packId i' g'" "i' < length slots"
        "g' < nextGeneration (slots ! i')" "i' < 2 ^ 32" "g' < 2 ^ 32"
        unfolding issued_below_def by blast
      from packId_inj [OF x(1) _ _ x(4,5)] True have "i = i'" "g = g'" by simp_all
      with x(2,3) gen_grown [of i] show False by (simp add: g_def)
    qed
    have keep: "issued_below ?slots' (insert (packId i g) ids)"
      unfolding issued_below_def
    proof
      fix x assume "x \<in> insert (packId i g) ids"
      then consider "x = packId i g" | "x \<in> ids" by blast
      then show "\<exists>j h. x = packId j h \<and> j < length ?slots'
          \<and> h < nextGeneration (?slots' ! j) \<and> j < 2 ^ 32 \<and> h < 2 ^ 32"
      proof cases
        case 1
        with True len_grown show ?thesis
          by (intro exI [of _ i] exI [of _ g]) simp
      next
        case 2
        with inv obtain j h where x: "x = packId j h" "j < length slots"
          "h < nextGeneration (slots ! j)" "j < 2 ^ 32" "h < 2 ^ 32"
          unfolding issued_below_def by blast
        have "h < nextGeneration (?slots' ! j)"
        proof (cases "j = i")
          case True
          with x(2,3) gen_grown [of j] len_grown show ?thesis by (simp add: g_def)
        next
          case False
          with x(2,3) gen_grown [of j] show ?thesis by simp
        qed
        with x len_grown show ?thesis
          by (intro exI [of _ j] exI [of _ h]) simp
      qed
    qed
    from True have "coordinator_enlist replaces slots =
                 (EnlistServer_Response STATUS_OK (packId i g), ?slots')"
      unfolding run by (rule if_P)
    with fresh keep show ?thesis by simp
  qed
qed


lemma issued_below_empty: "issued_below slots {}"
  by (simp add: issued_below_def)

lemma enlistServer_specCoordinator:
  assumes inv: "issued_below (coordinator w) ids"
  shows "(\<forall>sid. fst (enlistServer specCoordinator replacesId serviceMask loc readSpeed w)
                   = Returned sid \<longrightarrow>
            getId sid \<notin> ids
          \<and> issued_below
               (coordinator (snd (enlistServer specCoordinator replacesId serviceMask loc
                                    readSpeed w)))
               (insert (getId sid) ids))
       \<and> ((\<forall>sid. fst (enlistServer specCoordinator replacesId serviceMask loc readSpeed w)
                   \<noteq> Returned sid) \<longrightarrow>
            issued_below
               (coordinator (snd (enlistServer specCoordinator replacesId serviceMask loc
                                    readSpeed w))) ids)"
proof (cases "length loc + 1 < 2 ^ 32")
  case False
  then have "enlistServer specCoordinator replacesId serviceMask loc readSpeed w
               = (DownCastFailed, record_call AllocHeader w)"
    by (simp add: enlistServer_def EnlistServerRpc_def downCast_u32_def Let_def)
  with inv show ?thesis by (simp add: record_call_def)
next
  case True
  define h where "h = fst (coordinator_enlist (getId replacesId) (coordinator w))"
  define slots' where "slots' = snd (coordinator_enlist (getId replacesId) (coordinator w))"
  have run: "fst (enlistServer specCoordinator replacesId serviceMask loc readSpeed w) =
               (if common_status h \<noteq> STATUS_OK then ClientException (common_status h)
                else Returned (ServerId (resp_serverId h)))"
    and state: "coordinator (snd (enlistServer specCoordinator replacesId serviceMask loc
                  readSpeed w)) = slots'"
    by (simp_all add: enlistServer_def EnlistServerRpc_fits [OF True] Let_def
        EnlistServerRpc_wait_def waitInternal_def specCoordinator_def send_def
        record_call_def throwException_def h_def slots'_def)
  from coordinator_enlist_fresh [OF inv, of "getId replacesId"]
  have ok: "common_status h = STATUS_OK \<Longrightarrow>
              resp_serverId h \<notin> ids \<and> issued_below slots' (insert (resp_serverId h) ids)"
    and failed: "common_status h \<noteq> STATUS_OK \<Longrightarrow> slots' = coordinator w"
    by (simp_all add: h_def slots'_def)
  show ?thesis
  proof (cases "common_status h = STATUS_OK")
    case True
    with ok show ?thesis by (simp add: run state)
  next
    case False
    with failed inv show ?thesis by (simp add: run state)
  qed
qed

lemma returned_not_Returned: "(\<forall>x. r \<noteq> Returned x) \<Longrightarrow> returned (r # rs) = returned rs"
  by (cases r) simp_all

lemma enlistAll_specCoordinator:
  assumes "issued_below (coordinator w) ids"
  shows "distinct (returned (fst (enlistAll specCoordinator cs w)))
       \<and> getId ` set (returned (fst (enlistAll specCoordinator cs w))) \<inter> ids = {}
       \<and> issued_below (coordinator (snd (enlistAll specCoordinator cs w)))
           (ids \<union> getId ` set (returned (fst (enlistAll specCoordinator cs w))))"
  using assms
proof (induction cs arbitrary: w ids)
  case Nil
  then show ?case by simp
next
  case (Cons c cs)
  obtain replacesId serviceMask loc readSpeed where c: "c = (replacesId, serviceMask, loc, readSpeed)"
    by (cases c)
  define r where "r = fst (enlistServer specCoordinator replacesId serviceMask loc readSpeed w)"
  define w1 where "w1 = snd (enlistServer specCoordinator replacesId serviceMask loc readSpeed w)"
  have unfold: "fst (enlistAll specCoordinator (c # cs) w)
                  = r # fst (enlistAll specCoordinator cs w1)"
    "snd (enlistAll specCoordinator (c # cs) w) = snd (enlistAll specCoordinator cs w1)"
    by (simp_all add: c r_def w1_def case_prod_beta Let_def)
  note step = enlistServer_specCoordinator [OF Cons.prems, of replacesId serviceMask loc
      readSpeed, folded r_def w1_def]
  show ?case
  proof (cases "\<exists>sid. r = Returned sid")
    case True
    then obtain sid where sid: "r = Returned sid" by (elim exE)
    with step have new: "getId sid \<notin> ids"
      and inv1: "issued_below (coordinator w1) (insert (getId sid) ids)"
      by simp_all
    note ih = Cons.IH [OF inv1]
    from ih have "getId sid \<notin> getId ` set (returned (fst (enlistAll specCoordinator cs w1)))"
      by blast
    then have notin: "sid \<notin> set (returned (fst (enlistAll specCoordinator cs w1)))"
      by blast
    have un: "ids \<union> getId ` set (sid # returned (fst (enlistAll specCoordinator cs w1)))
                = insert (getId sid) ids
                    \<union> getId ` set (returned (fst (enlistAll specCoordinator cs w1)))"
      by auto
    from ih notin new show ?thesis
      unfolding unfold sid returned.simps un by auto
  next
    case False
    then have none: "\<forall>sid. r \<noteq> Returned sid" by simp
    with step have inv1: "issued_below (coordinator w1) ids" by simp
    from Cons.IH [OF inv1] show ?thesis
      unfolding unfold returned_not_Returned [OF none] .
  qed
qed

lemmas enlist_eval = enlistServer_def EnlistServerRpc_def downCast_u32_def Let_def
  EnlistServerRpc_wait_def waitInternal_def specCoordinator_def send_def
  record_call_def throwException_def coordinator_enlist_def retire_def packId_def
  cluster0_def c_str_def

subsection \<open>The enlist request\<close>

text \<open>
  C5, as stated, at the locator of the three characters \<open>a\<close>, null, \<open>b\<close>: the request is
  issued with serviceLocatorLength 4, but its trailer is \<open>a\<close> followed by three null
  characters, not the locator's characters followed by one null character.
\<close>

theorem C5_counterexample:
  "\<exists>rpc. fst (EnlistServerRpc ctx0 (ServerId 7) {MASTER_SERVICE}
                 [CHR ''a'', NUL, CHR ''b''] 100 w0) = Some rpc
         \<and> unat (serviceLocatorLength (header (request rpc))) = 4
         \<and> trailer (request rpc) = [CHR ''a'', NUL, NUL, NUL]
         \<and> trailer (request rpc) \<noteq> [CHR ''a'', NUL, CHR ''b''] @ [NUL]"
proof -
  have fits: "length [CHR ''a'', NUL, CHR ''b''] + 1 < (2::nat) ^ 32"
    by simp
  show ?thesis
    unfolding EnlistServerRpc_fits [OF fits] Let_def by (simp add: c_str_def)
qed

text \<open>
  C5, amended: for a locator whose length plus one fits in 32 bits, the request is issued;
  its fixed fields are the 64-bit value of replacesId, the serialized serviceMask and
  readSpeed; serviceLocatorLength is the locator's length plus one; and the trailer has
  that many characters, namely the locator's characters before its first null character
  followed by null characters. For a locator without a null character the trailer is
  therefore the locator followed by one null character, and the empty locator gives
  length 1 and a single null character.
\<close>

theorem C5_enlist_request:
  assumes "length loc + 1 < 2 ^ 32"
  shows "\<exists>rpc. fst (EnlistServerRpc context replacesId serviceMask loc readSpeed w)
                  = Some rpc
           \<and> header (request rpc) =
               EnlistServer_Request (getId replacesId) (serialize serviceMask) readSpeed
                 (of_nat (length loc + 1))
           \<and> unat (serviceLocatorLength (header (request rpc))) = length loc + 1
           \<and> length (trailer (request rpc)) = length loc + 1
           \<and> trailer (request rpc) =
               takeWhile (\<lambda>c. c \<noteq> NUL) loc
               @ replicate (length loc + 1 - length (takeWhile (\<lambda>c. c \<noteq> NUL) loc)) NUL
           \<and> (NUL \<notin> set loc \<longrightarrow> trailer (request rpc) = loc @ [NUL])
           \<and> (loc = [] \<longrightarrow> trailer (request rpc) = [NUL])"
proof -
  define rpc :: "'a RpcWrapper" where
    "rpc = \<lparr>rpcContext = context,
            request = \<lparr>header = EnlistServer_Request (getId replacesId)
                                  (serialize serviceMask) readSpeed
                                  (of_nat (length loc + 1)),
                       trailer = strncpy (c_str loc) (length loc + 1)\<rparr>\<rparr>"
  have run: "fst (EnlistServerRpc context replacesId serviceMask loc readSpeed w)
               = Some rpc"
    unfolding EnlistServerRpc_fits [OF assms] rpc_def Let_def by (rule fst_conv)
  have hdr: "header (request rpc) =
               EnlistServer_Request (getId replacesId) (serialize serviceMask) readSpeed
                 (of_nat (length loc + 1))"
    by (simp add: rpc_def)
  have len: "unat (serviceLocatorLength (header (request rpc))) = length loc + 1"
    unfolding hdr RequestHeader.sel using assms by (rule unat_downCast_u32)
  have tr: "trailer (request rpc) = strncpy (c_str loc) (length loc + 1)"
    by (simp add: rpc_def)
  have short: "length (takeWhile (\<lambda>c. c \<noteq> NUL) loc) \<le> length loc"
    by (rule length_takeWhile_le)
  have bytes: "trailer (request rpc) =
                 takeWhile (\<lambda>c. c \<noteq> NUL) loc
                 @ replicate (length loc + 1 - length (takeWhile (\<lambda>c. c \<noteq> NUL) loc)) NUL"
    unfolding tr by (rule strncpy_c_str)
  have size: "length (trailer (request rpc)) = length loc + 1"
    unfolding bytes using short by simp
  have plain: "NUL \<notin> set loc \<longrightarrow> trailer (request rpc) = loc @ [NUL]"
    unfolding tr by (rule impI) (erule strncpy_c_str_no_NUL)
  have empty: "loc = [] \<longrightarrow> trailer (request rpc) = [NUL]"
    using plain by simp
  show ?thesis
    by (rule exI [of _ rpc]) (intro conjI run hdr len size bytes plain empty)
qed

theorem C5_enlist_request_witness:
  "length ''tcp:host=1'' + 1 < (2::nat) ^ 32
   \<and> (\<exists>rpc. fst (EnlistServerRpc ctx0 (ServerId 7) {MASTER_SERVICE, BACKUP_SERVICE}
                    ''tcp:host=1'' 100 w0) = Some rpc
          \<and> unat (serviceLocatorLength (header (request rpc))) = 11
          \<and> trailer (request rpc) = ''tcp:host=1'' @ [NUL])"
proof -
  have h: "length ''tcp:host=1'' + 1 < (2::nat) ^ 32" by simp
  show ?thesis
    using h C5_enlist_request [OF h, of ctx0 "ServerId 7" "{MASTER_SERVICE, BACKUP_SERVICE}"
        100 w0]
    by auto
qed

subsection \<open>The reassign-tablet-ownership request\<close>

text \<open>
  C6: the request issued by ReassignTabletOwnershipRpc holds the six inputs unchanged in
  its fixed fields, the new owner as its 64-bit value, and has no trailer; it is this
  request that is handed to the transport.
\<close>

theorem C6_reassign_request:
  "\<exists>w'. ReassignTabletOwnershipRpc context tableId firstKeyHash lastKeyHash newOwnerId
           ctimeSegmentId ctimeSegmentOffset w =
         (\<lparr>rpcContext = context,
           request = \<lparr>header = ReassignTabletOwnership_Request tableId firstKeyHash
                                 lastKeyHash (getId newOwnerId) ctimeSegmentId
                                 ctimeSegmentOffset,
                      trailer = []\<rparr>\<rparr>, w')
       \<and> calls w' = calls w @
           [AllocHeader,
            Send \<lparr>header = ReassignTabletOwnership_Request tableId firstKeyHash
                             lastKeyHash (getId newOwnerId) ctimeSegmentId
                             ctimeSegmentOffset,
                  trailer = []\<rparr>]"
  by (simp add: ReassignTabletOwnershipRpc_def Let_def send_def record_call_def)

subsection \<open>Completion and the status of the reply\<close>

text \<open>
  C1: in VerifyMembershipRpc::wait, a reply with the status "caller not in cluster" ends
  the process (\<open>exit(1)\<close>) when suicideOnFailure is true, and raises the exception
  carrying that status when it is false; every other status that is not STATUS_OK raises
  the exception carrying it, whatever the flag; and the process exits only for "caller
  not in cluster" with the flag set.
\<close>

theorem C1_verify_membership_exit:
  "(reply_status rpc w = STATUS_CALLER_NOT_IN_CLUSTER \<longrightarrow>
      fst (VerifyMembershipRpc_wait rpc True w) = ProcessExit 1
    \<and> fst (VerifyMembershipRpc_wait rpc False w) = ClientException (reply_status rpc w))
   \<and> (reply_status rpc w \<noteq> STATUS_OK \<and> reply_status rpc w \<noteq> STATUS_CALLER_NOT_IN_CLUSTER \<longrightarrow>
      fst (VerifyMembershipRpc_wait rpc suicideOnFailure w)
        = ClientException (reply_status rpc w))
   \<and> ((\<exists>n. fst (VerifyMembershipRpc_wait rpc suicideOnFailure w) = ProcessExit n) \<longrightarrow>
      reply_status rpc w = STATUS_CALLER_NOT_IN_CLUSTER \<and> suicideOnFailure)"
  unfolding VerifyMembershipRpc_wait_eq by simp

theorem C1_verify_membership_exit_witness:
  "reply_status \<lparr>rpcContext = ctx_replying (Simple_Response STATUS_CALLER_NOT_IN_CLUSTER) [],
                  request = \<lparr>header = VerifyMembership_Request 7, trailer = []\<rparr>\<rparr> w0
     = STATUS_CALLER_NOT_IN_CLUSTER
   \<and> fst (VerifyMembershipRpc_wait
            \<lparr>rpcContext = ctx_replying (Simple_Response STATUS_CALLER_NOT_IN_CLUSTER) [],
              request = \<lparr>header = VerifyMembership_Request 7, trailer = []\<rparr>\<rparr> True w0)
     = ProcessExit 1
   \<and> fst (VerifyMembershipRpc_wait
            \<lparr>rpcContext = ctx_replying (Simple_Response STATUS_CALLER_NOT_IN_CLUSTER) [],
              request = \<lparr>header = VerifyMembership_Request 7, trailer = []\<rparr>\<rparr> False w0)
     = ClientException STATUS_CALLER_NOT_IN_CLUSTER
   \<and> reply_status \<lparr>rpcContext = ctx_replying (Simple_Response (STATUS_FAILURE 3)) [],
                    request = \<lparr>header = VerifyMembership_Request 7, trailer = []\<rparr>\<rparr> w0
     = STATUS_FAILURE 3
   \<and> fst (VerifyMembershipRpc_wait
            \<lparr>rpcContext = ctx_replying (Simple_Response (STATUS_FAILURE 3)) [],
              request = \<lparr>header = VerifyMembership_Request 7, trailer = []\<rparr>\<rparr> True w0)
     = ClientException (STATUS_FAILURE 3)"
  using
    C1_verify_membership_exit
      [of "\<lparr>rpcContext = ctx_replying (Simple_Response STATUS_CALLER_NOT_IN_CLUSTER) [],
            request = \<lparr>header = VerifyMembership_Request 7, trailer = []\<rparr>\<rparr>" w0 True]
    C1_verify_membership_exit
      [of "\<lparr>rpcContext = ctx_replying (Simple_Response (STATUS_FAILURE 3)) [],
            request = \<lparr>header = VerifyMembership_Request 7, trailer = []\<rparr>\<rparr>" w0 True]
  by (simp add: reply_status_ctx_replying)

text \<open>
  C2: every completion raises the exception carrying exactly the status of the reply when
  that status is not STATUS_OK (for verify-membership: outside the case that ends the
  process), and returns without an exception when it is STATUS_OK. \<open>simpleWait\<close> is the
  completion of the four operations whose \<open>wait\<close> is not in CoordinatorClient.cc.
\<close>

theorem C2_status_propagation:
  "(reply_status rpc w \<noteq> STATUS_OK \<longrightarrow>
      fst (EnlistServerRpc_wait rpc w) = ClientException (reply_status rpc w)
    \<and> fst (GetServerListRpc_wait pb rpc serverList w) = ClientException (reply_status rpc w)
    \<and> fst (GetTabletMapRpc_wait pb rpc tabletMap w) = ClientException (reply_status rpc w)
    \<and> fst (simpleWait rpc w) = ClientException (reply_status rpc w)
    \<and> (\<not> (reply_status rpc w = STATUS_CALLER_NOT_IN_CLUSTER \<and> suicideOnFailure) \<longrightarrow>
         fst (VerifyMembershipRpc_wait rpc suicideOnFailure w)
           = ClientException (reply_status rpc w)))
   \<and> (reply_status rpc w = STATUS_OK \<longrightarrow>
      fst (EnlistServerRpc_wait rpc w)
        = Returned (ServerId (resp_serverId (respHeader (reply rpc w))))
    \<and> fst (GetServerListRpc_wait pb rpc serverList w) = Returned ()
    \<and> fst (GetTabletMapRpc_wait pb rpc tabletMap w) = Returned ()
    \<and> fst (simpleWait rpc w) = Returned ()
    \<and> fst (VerifyMembershipRpc_wait rpc suicideOnFailure w) = Returned ())"
  unfolding EnlistServerRpc_wait_eq GetServerListRpc_wait_eq GetTabletMapRpc_wait_eq
    simpleWait_eq VerifyMembershipRpc_wait_eq
  by simp


theorem C2_status_propagation_witness:
  "reply_status \<lparr>rpcContext = ctx_replying (EnlistServer_Response (STATUS_FAILURE 3) 9) [],
                  request = \<lparr>header = EnlistServer_Request 0 1 100 1, trailer = [NUL]\<rparr>\<rparr> w0
     \<noteq> STATUS_OK
   \<and> fst (EnlistServerRpc_wait
            \<lparr>rpcContext = ctx_replying (EnlistServer_Response (STATUS_FAILURE 3) 9) [],
              request = \<lparr>header = EnlistServer_Request 0 1 100 1, trailer = [NUL]\<rparr>\<rparr> w0)
     = ClientException (STATUS_FAILURE 3)
   \<and> reply_status \<lparr>rpcContext = ctx_replying (EnlistServer_Response STATUS_OK 9) [],
                    request = \<lparr>header = EnlistServer_Request 0 1 100 1, trailer = [NUL]\<rparr>\<rparr> w0
     = STATUS_OK
   \<and> fst (EnlistServerRpc_wait
            \<lparr>rpcContext = ctx_replying (EnlistServer_Response STATUS_OK 9) [],
              request = \<lparr>header = EnlistServer_Request 0 1 100 1, trailer = [NUL]\<rparr>\<rparr> w0)
     = Returned (ServerId 9)"
  using
    C2_status_propagation
      [of "\<lparr>rpcContext = ctx_replying (EnlistServer_Response (STATUS_FAILURE 3) 9) [],
            request = \<lparr>header = EnlistServer_Request 0 1 100 1, trailer = [NUL]\<rparr>\<rparr>"
          w0 pb0 0 0 True]
    C2_status_propagation
      [of "\<lparr>rpcContext = ctx_replying (EnlistServer_Response STATUS_OK 9) [],
            request = \<lparr>header = EnlistServer_Request 0 1 100 1, trailer = [NUL]\<rparr>\<rparr>"
          w0 pb0 0 0 True]
  by (simp add: reply_status_ctx_replying reply_ctx_replying)

text \<open>
  C7: when the reply to a server-list or tablet-map query carries a status other than
  STATUS_OK, completion raises the exception carrying that status, the caller's
  structure is left as it was, and the only call made is \<open>waitInternal\<close>: the trailer
  is not parsed, so the result does not depend on the parser.
\<close>

theorem C7_failed_query_leaves_output:
  assumes "reply_status rpc w \<noteq> STATUS_OK"
  shows "fst (GetServerListRpc_wait pb rpc serverList w) = ClientException (reply_status rpc w)
       \<and> serverLists (snd (GetServerListRpc_wait pb rpc serverList w)) = serverLists w
       \<and> new_calls w (snd (GetServerListRpc_wait pb rpc serverList w)) = [WaitInternal]
       \<and> GetServerListRpc_wait pb rpc serverList w = GetServerListRpc_wait pb' rpc serverList w
       \<and> fst (GetTabletMapRpc_wait pb rpc tabletMap w) = ClientException (reply_status rpc w)
       \<and> tabletMaps (snd (GetTabletMapRpc_wait pb rpc tabletMap w)) = tabletMaps w
       \<and> new_calls w (snd (GetTabletMapRpc_wait pb rpc tabletMap w)) = [WaitInternal]
       \<and> GetTabletMapRpc_wait pb rpc tabletMap w = GetTabletMapRpc_wait pb' rpc tabletMap w"
  using assms
  by (simp add: GetServerListRpc_wait_eq GetTabletMapRpc_wait_eq replied_frame
      new_calls_append)

theorem C7_failed_query_leaves_output_witness:
  "reply_status \<lparr>rpcContext = ctx_replying (GetServerList_Response (STATUS_FAILURE 3) 2) ''ab'',
                  request = \<lparr>header = GetServerList_Request 3, trailer = []\<rparr>\<rparr> w0
     \<noteq> STATUS_OK
   \<and> fst (GetServerListRpc_wait pb0
            \<lparr>rpcContext = ctx_replying (GetServerList_Response (STATUS_FAILURE 3) 2) ''ab'',
              request = \<lparr>header = GetServerList_Request 3, trailer = []\<rparr>\<rparr> 0 w0)
     = ClientException (STATUS_FAILURE 3)
   \<and> serverLists (snd (GetServerListRpc_wait pb0
            \<lparr>rpcContext = ctx_replying (GetServerList_Response (STATUS_FAILURE 3) 2) ''ab'',
              request = \<lparr>header = GetServerList_Request 3, trailer = []\<rparr>\<rparr> 0 w0)) 0
     = []"
proof -
  have h: "reply_status
             \<lparr>rpcContext = ctx_replying (GetServerList_Response (STATUS_FAILURE 3) 2) ''ab'',
               request = \<lparr>header = GetServerList_Request 3, trailer = []\<rparr>\<rparr> w0
           \<noteq> STATUS_OK"
    by (simp add: reply_status_ctx_replying)
  show ?thesis
    using h C7_failed_query_leaves_output [OF h, of pb0 0 pb0 0]
    by (simp add: reply_status_ctx_replying w0_def)
qed

subsection \<open>The synchronous calls\<close>

text \<open>
  C3: each synchronous call of CoordinatorClient gives, from every world, the same
  outcome and the same world (so the same requests handed to the transport, the same
  exceptions and the same result) as issuing the operation and then completing it.
\<close>

theorem C3_synchronous_calls:
  "enlistServer context replacesId serviceMask localServiceLocator readSpeed w =
     complete_issue
       (EnlistServerRpc context replacesId serviceMask localServiceLocator readSpeed)
       EnlistServerRpc_wait w
   \<and> getBackupList pb context serverList w =
     complete_issue (constructed (GetServerListRpc context {BACKUP_SERVICE}))
       (\<lambda>rpc. GetServerListRpc_wait pb rpc serverList) w
   \<and> getMasterList pb context serverList w =
     complete_issue (constructed (GetServerListRpc context {MASTER_SERVICE}))
       (\<lambda>rpc. GetServerListRpc_wait pb rpc serverList) w
   \<and> getServerList pb context serverList w =
     complete_issue (constructed (GetServerListRpc context {MASTER_SERVICE, BACKUP_SERVICE}))
       (\<lambda>rpc. GetServerListRpc_wait pb rpc serverList) w
   \<and> getTabletMap pb context tabletMap w =
     complete_issue (constructed (GetTabletMapRpc context))
       (\<lambda>rpc. GetTabletMapRpc_wait pb rpc tabletMap) w
   \<and> hintServerDown context serverId w =
     complete_issue (constructed (HintServerDownRpc context serverId)) simpleWait w
   \<and> reassignTabletOwnership context tableId firstKeyHash lastKeyHash newOwnerId
       ctimeSegmentId ctimeSegmentOffset w =
     complete_issue
       (constructed (ReassignTabletOwnershipRpc context tableId firstKeyHash lastKeyHash
          newOwnerId ctimeSegmentId ctimeSegmentOffset))
       simpleWait w
   \<and> recoveryMasterFinished pb context recoveryId recoveryMasterId tablets successful w =
     complete_issue
       (constructed (RecoveryMasterFinishedRpc pb context recoveryId recoveryMasterId
          tablets successful))
       simpleWait w
   \<and> setMasterRecoveryInfo pb context serverId recoveryInfo w =
     complete_issue (constructed (SetMasterRecoveryInfoRpc pb context serverId recoveryInfo))
       simpleWait w
   \<and> verifyMembership context serverId suicideOnFailure w =
     complete_issue (constructed (VerifyMembershipRpc context serverId))
       (\<lambda>rpc. VerifyMembershipRpc_wait rpc suicideOnFailure) w"
  by (simp add: enlistServer_def getBackupList_def getMasterList_def getServerList_def
      getTabletMap_def hintServerDown_def reassignTabletOwnership_def
      recoveryMasterFinished_def setMasterRecoveryInfo_def verifyMembership_def
      complete_issue_def constructed_def case_prod_beta)

subsection \<open>The requests of the queries\<close>

text \<open>
  C8: GetServerListRpc puts the serialized capability filter in the serviceMask field of
  its request. getBackupList sends the filter of exactly the backup service, getMasterList
  that of exactly the master service, and getServerList that of the union of the two.
  GetTabletMapRpc sends a request that consists of the operation header alone.
\<close>

theorem C8_query_requests:
  "request (fst (GetServerListRpc context services w)) =
     \<lparr>header = GetServerList_Request (serialize services), trailer = []\<rparr>
   \<and> sent (new_calls w (snd (getBackupList pb context serverList w))) =
       [\<lparr>header = GetServerList_Request (serialize {BACKUP_SERVICE}), trailer = []\<rparr>]
   \<and> sent (new_calls w (snd (getMasterList pb context serverList w))) =
       [\<lparr>header = GetServerList_Request (serialize {MASTER_SERVICE}), trailer = []\<rparr>]
   \<and> sent (new_calls w (snd (getServerList pb context serverList w))) =
       [\<lparr>header = GetServerList_Request (serialize ({MASTER_SERVICE} \<union> {BACKUP_SERVICE})),
         trailer = []\<rparr>]
   \<and> serialize {BACKUP_SERVICE} \<noteq> serialize {MASTER_SERVICE}
   \<and> serialize ({MASTER_SERVICE} \<union> {BACKUP_SERVICE}) \<noteq> serialize {BACKUP_SERVICE}
   \<and> serialize ({MASTER_SERVICE} \<union> {BACKUP_SERVICE}) \<noteq> serialize {MASTER_SERVICE}
   \<and> request (fst (GetTabletMapRpc context w)) =
       \<lparr>header = GetTabletMap_Request, trailer = []\<rparr>
   \<and> sent (new_calls w (snd (getTabletMap pb context tabletMap w))) =
       [\<lparr>header = GetTabletMap_Request, trailer = []\<rparr>]"
proof -
  have un: "{MASTER_SERVICE} \<union> {BACKUP_SERVICE} = {MASTER_SERVICE, BACKUP_SERVICE}"
    by auto
  have list: "sent (new_calls w (snd (GetServerListRpc_wait pb
                 (fst (GetServerListRpc context services w)) serverList
                 (snd (GetServerListRpc context services w))))) =
              [\<lparr>header = GetServerList_Request (serialize services), trailer = []\<rparr>]"
    for services
    by (subst sent_GetServerListRpc_wait
          [where cs = "[AllocHeader, Send \<lparr>header = GetServerList_Request (serialize services),
                                            trailer = []\<rparr>]"])
       (simp_all add: GetServerListRpc_eq)
  have tablets: "sent (new_calls w (snd (GetTabletMapRpc_wait pb
                 (fst (GetTabletMapRpc context w)) tabletMap
                 (snd (GetTabletMapRpc context w))))) =
              [\<lparr>header = GetTabletMap_Request, trailer = []\<rparr>]"
    by (subst sent_GetTabletMapRpc_wait
          [where cs = "[AllocHeader, Send \<lparr>header = GetTabletMap_Request, trailer = []\<rparr>]"])
       (simp_all add: GetTabletMapRpc_eq)
  show ?thesis
    unfolding un getBackupList_def getMasterList_def getServerList_def getTabletMap_def
      case_prod_beta Let_def
    by (intro conjI list tablets) (simp_all add: GetServerListRpc_eq GetTabletMapRpc_eq
          serialize_def)
qed

subsection \<open>Issuing does not block\<close>

text \<open>
  C9, as stated, at VerifyMembershipRpc: issuing this operation does more than allocate,
  fill and hand over the request, since it first writes a warning to the log.
\<close>

theorem C9_counterexample:
  "\<not> only_issues w0 (snd (VerifyMembershipRpc ctx0 (ServerId 7) w0))
   \<and> logged (snd (VerifyMembershipRpc ctx0 (ServerId 7) w0))
       = logged w0 @ [''verifying cluster membership for %s'']"
  by (simp add: VerifyMembershipRpc_eq only_issues_def RAMCLOUD_LOG_def w0_def)

text \<open>
  C9, amended: issuing an operation changes nothing but the list of calls made, which it
  extends by calls that do not block (the header allocation, the trailer, and \<open>send\<close>
  with the request of the new instance), except that VerifyMembershipRpc first writes a
  warning to the log; \<open>waitInternal\<close> is never among these calls. Each completion starts
  with \<open>waitInternal\<close>, which blocks.
\<close>

theorem C9_issuing_does_not_block:
  "only_issues w (snd (EnlistServerRpc context replacesId serviceMask loc readSpeed w))
   \<and> (\<forall>rpc. fst (EnlistServerRpc context replacesId serviceMask loc readSpeed w)
              = Some rpc \<longrightarrow>
          sent (new_calls w
                 (snd (EnlistServerRpc context replacesId serviceMask loc readSpeed w)))
            = [request rpc])
   \<and> issues w (GetServerListRpc context services w)
   \<and> issues w (GetTabletMapRpc context w)
   \<and> issues w (HintServerDownRpc context serverId w)
   \<and> issues w (ReassignTabletOwnershipRpc context tableId firstKeyHash lastKeyHash
                 newOwnerId ctimeSegmentId ctimeSegmentOffset w)
   \<and> issues w (RecoveryMasterFinishedRpc pb context recoveryId recoveryMasterId tablets
                 successful w)
   \<and> issues w (SetMasterRecoveryInfoRpc pb context serverId recoveryInfo w)
   \<and> issues (RAMCLOUD_LOG ''verifying cluster membership for %s'' w)
        (VerifyMembershipRpc context serverId w)
   \<and> take 1 (new_calls w (snd (EnlistServerRpc_wait rpc w))) = [WaitInternal]
   \<and> take 1 (new_calls w (snd (GetServerListRpc_wait pb rpc serverList w)))
       = [WaitInternal]
   \<and> take 1 (new_calls w (snd (GetTabletMapRpc_wait pb rpc tabletMap w)))
       = [WaitInternal]
   \<and> take 1 (new_calls w (snd (simpleWait rpc w))) = [WaitInternal]
   \<and> take 1 (new_calls w (snd (VerifyMembershipRpc_wait rpc suicideOnFailure w)))
       = [WaitInternal]
   \<and> blocks WaitInternal"
  by (intro conjI allI impI EnlistServerRpc_only_issues EnlistServerRpc_sent wait_blocks
        VerifyMembershipRpc_issues)
     (simp_all add: GetServerListRpc_eq GetTabletMapRpc_eq HintServerDownRpc_eq
        ReassignTabletOwnershipRpc_eq RecoveryMasterFinishedRpc_eq
        SetMasterRecoveryInfoRpc_eq VerifyMembershipRpc_eq issuesI)

theorem C9_issuing_does_not_block_witness:
  "fst (EnlistServerRpc ctx0 (ServerId 7) {MASTER_SERVICE} ''tcp:host=1'' 100 w0) =
     Some \<lparr>rpcContext = ctx0,
                request = \<lparr>header = EnlistServer_Request 7 1 100 11,
                           trailer = ''tcp:host=1'' @ [NUL]\<rparr>\<rparr>
   \<and> sent (new_calls w0
            (snd (EnlistServerRpc ctx0 (ServerId 7) {MASTER_SERVICE} ''tcp:host=1'' 100 w0)))
     = [\<lparr>header = EnlistServer_Request 7 1 100 11, trailer = ''tcp:host=1'' @ [NUL]\<rparr>]"
proof -
  have fits: "length ''tcp:host=1'' + 1 < (2::nat) ^ 32"
    by simp
  have h: "fst (EnlistServerRpc ctx0 (ServerId 7) {MASTER_SERVICE} ''tcp:host=1'' 100 w0) =
     Some \<lparr>rpcContext = ctx0,
                request = \<lparr>header = EnlistServer_Request 7 1 100 11,
                           trailer = ''tcp:host=1'' @ [NUL]\<rparr>\<rparr>"
    unfolding EnlistServerRpc_fits [OF fits] Let_def
    by (simp add: c_str_def serialize_def)
  show ?thesis
    using h C9_issuing_does_not_block
      [of w0 ctx0 "ServerId 7" "{MASTER_SERVICE}" "''tcp:host=1''" 100,
        THEN conjunct2, THEN conjunct1, THEN spec, THEN mp, OF h]
    by simp
qed

subsection \<open>Fresh server ids\<close>

text \<open>
  C4: against the coordinator modelled from the spec, after any history of enlist calls
  the ids returned by the successful calls are pairwise distinct, and a further
  successful enlist call returns the id decoded from the response's serverId field,
  which none of the earlier calls returned; in particular it differs from the replaced
  id when that id was returned earlier.
\<close>

theorem C4_enlisted_ids_fresh:
  "distinct (returned (fst (enlistAll specCoordinator prior w)))
   \<and> (\<forall>sid. fst (enlistServer specCoordinator replacesId serviceMask
                  localServiceLocator readSpeed
                  (snd (enlistAll specCoordinator prior w))) = Returned sid \<longrightarrow>
        sid \<notin> set (returned (fst (enlistAll specCoordinator prior w)))
      \<and> (replacesId \<in> set (returned (fst (enlistAll specCoordinator prior w))) \<longrightarrow>
           sid \<noteq> replacesId))"
proof -
  have inv0: "issued_below (coordinator w) {}"
    by (rule issued_below_empty)
  note hist = enlistAll_specCoordinator [OF inv0, of prior]
  from hist have inv: "issued_below (coordinator (snd (enlistAll specCoordinator prior w)))
      (getId ` set (returned (fst (enlistAll specCoordinator prior w))))"
    by simp
  note step = enlistServer_specCoordinator [OF inv, of replacesId serviceMask
      localServiceLocator readSpeed]
  have fresh: "sid \<notin> set (returned (fst (enlistAll specCoordinator prior w)))"
    if "fst (enlistServer specCoordinator replacesId serviceMask localServiceLocator
              readSpeed (snd (enlistAll specCoordinator prior w))) = Returned sid" for sid
    using step that by blast
  from hist fresh show ?thesis by blast
qed

theorem C4_enlisted_ids_fresh_witness:
  "fst (enlistServer specCoordinator (ServerId 0) {BACKUP_SERVICE} ''tcp:host=2'' 100
         (snd (enlistAll specCoordinator
                 [(ServerId 99, {MASTER_SERVICE}, ''tcp:host=1'', 100)] cluster0)))
     = Returned (ServerId 4294967296)
   \<and> returned (fst (enlistAll specCoordinator
                 [(ServerId 99, {MASTER_SERVICE}, ''tcp:host=1'', 100)] cluster0))
     = [ServerId 0]
   \<and> ServerId 4294967296 \<notin> set (returned (fst (enlistAll specCoordinator
                 [(ServerId 99, {MASTER_SERVICE}, ''tcp:host=1'', 100)] cluster0)))"
proof -
  have first: "returned (fst (enlistAll specCoordinator
                 [(ServerId 99, {MASTER_SERVICE}, ''tcp:host=1'', 100)] cluster0))
     = [ServerId 0]"
    by (simp add: enlist_eval)
  have h: "fst (enlistServer specCoordinator (ServerId 0) {BACKUP_SERVICE} ''tcp:host=2'' 100
         (snd (enlistAll specCoordinator
                 [(ServerId 99, {MASTER_SERVICE}, ''tcp:host=1'', 100)] cluster0)))
     = Returned (ServerId 4294967296)"
    by (simp add: enlist_eval)
  note fresh = C4_enlisted_ids_fresh
      [of "[(ServerId 99, {MASTER_SERVICE}, ''tcp:host=1'', 100)]" cluster0 "ServerId 0"
        "{BACKUP_SERVICE}" "''tcp:host=2''" 100,
        THEN conjunct2, THEN spec, THEN mp, OF h, THEN conjunct1]
  from h first fresh show ?thesis
    by (intro conjI)
qed

subsection \<open>The mock driver's staged input\<close>

text \<open>
  C10: with no input staged, \<open>tryRecvPacket\<close> returns false and leaves the memory of
  Received objects as it was. With an input staged by \<open>setInput\<close>, it returns true,
  the output object has the input's address length, payload and length and this driver
  as its driver, no other object is written, and the staged input is cleared, so that a
  second call without a new \<open>setInput\<close> returns false and writes nothing.
\<close>

theorem C10_tryRecvPacket_once:
  "(inputReceived d = 0 \<longrightarrow>
      tryRecvPacket this received (d, mem) =
        (False, d\<lparr>tryRecvPacketCount := tryRecvPacketCount d + 1\<rparr>, mem))
   \<and> (staged \<noteq> 0 \<longrightarrow>
      fst (tryRecvPacket this received (setInput staged d, mem)) = True
    \<and> addrlen (snd (snd (tryRecvPacket this received (setInput staged d, mem))) received)
        = addrlen (mem staged)
    \<and> payload (snd (snd (tryRecvPacket this received (setInput staged d, mem))) received)
        = payload (mem staged)
    \<and> len (snd (snd (tryRecvPacket this received (setInput staged d, mem))) received)
        = len (mem staged)
    \<and> driver (snd (snd (tryRecvPacket this received (setInput staged d, mem))) received)
        = this
    \<and> (\<forall>p. p \<noteq> received \<longrightarrow>
          snd (snd (tryRecvPacket this received (setInput staged d, mem))) p = mem p)
    \<and> inputReceived (fst (snd (tryRecvPacket this received (setInput staged d, mem)))) = 0
    \<and> fst (tryRecvPacket this received'
             (snd (tryRecvPacket this received (setInput staged d, mem)))) = False
    \<and> snd (snd (tryRecvPacket this received'
             (snd (tryRecvPacket this received (setInput staged d, mem)))))
        = snd (snd (tryRecvPacket this received (setInput staged d, mem))))"
  by (simp add: tryRecvPacket_def setInput_def Let_def)

theorem C10_tryRecvPacket_once_witness:
  "inputReceived MockDriver_new = 0
   \<and> tryRecvPacket 9 2 (MockDriver_new, mem0) =
       (False, MockDriver_new\<lparr>tryRecvPacketCount := 1\<rparr>, mem0)
   \<and> (1::nat) \<noteq> 0
   \<and> fst (tryRecvPacket 9 2 (setInput 1 MockDriver_new, mem0)) = True
   \<and> snd (snd (tryRecvPacket 9 2 (setInput 1 MockDriver_new, mem0))) 2
       = \<lparr>addrlen = 16, payload = 4096, len = 5, driver = 9\<rparr>
   \<and> fst (tryRecvPacket 9 3 (snd (tryRecvPacket 9 2 (setInput 1 MockDriver_new, mem0))))
       = False"
proof -
  have none: "inputReceived MockDriver_new = 0"
    by (simp add: MockDriver_new_def)
  have some: "(1::nat) \<noteq> 0"
    by simp
  note first = C10_tryRecvPacket_once [of MockDriver_new 9 2 mem0 1 3, THEN conjunct1,
      THEN mp, OF none]
  note second = C10_tryRecvPacket_once [of MockDriver_new 9 2 mem0 1 3, THEN conjunct2,
      THEN mp, OF some]
  have cell: "snd (snd (tryRecvPacket 9 2 (setInput 1 MockDriver_new, mem0))) 2
       = \<lparr>addrlen = 16, payload = 4096, len = 5, driver = 9\<rparr>"
    using second by (simp add: mem0_def)
  show ?thesis
    using none first second cell by (simp add: MockDriver_new_def)
qed

end
